theory Spec2Isabelle
  imports Main
begin

section \<open>The instance manager of deployer/instance/manager.go\<close>

text \<open>
  The file manager.go holds the type \<open>manager\<close> and its three operations
  \<open>FindCurrent\<close>, \<open>Create\<close> and \<open>DeleteAll\<close>. Everything the manager talks to
  is reached through a Go interface or a value of another package: the VM manager, the
  registry server, the disk deployer, the stemcells, the deployment, the event logger
  stage and the instances themselves. Their behaviour is a parameter of this model
  (the record \<open>collaborators\<close> below): each operation is an arbitrary function of a
  world of type \<open>'w\<close> that returns what the Go call returns together with the next
  world. Collaborator calls are assumed to return; the one place where the manager
  itself can wait forever, the receive on the registry's readiness channel, is modelled.
\<close>

subsection \<open>Errors\<close>

text \<open>
  \<open>bosherr.WrapError(cause, msg)\<close> of the bosh-agent library builds an error from a
  message and the error it wraps; \<open>bosherr.WrapErrorf\<close> formats the message first. An
  error of a collaborator is \<open>Error msg\<close>. A Go \<open>error\<close> that may be nil is an
  \<open>error option\<close>, with \<open>None\<close> for nil.
\<close>

datatype error = Error string | WrapError error string

subsection \<open>Formatting\<close>

text \<open>
  The three format strings of the file use the verbs \<open>%s\<close> and \<open>%d\<close> of
  \<open>fmt.Sprintf\<close>. \<open>%d\<close> prints a Go \<open>int\<close> in decimal, with a minus sign
  for a negative number. The ids and ports are passed on and printed, never computed
  with, so they are modelled as \<open>int\<close>.
\<close>

definition digit_char :: "nat \<Rightarrow> char" where
  "digit_char n = ''0123456789'' ! n"

function show_nat :: "nat \<Rightarrow> string" where
  "show_nat n = (if n < 10 then [digit_char n] else show_nat (n div 10) @ [digit_char (n mod 10)])"
  by pat_completeness auto
termination
  by (relation "measure (\<lambda>n. n)") auto

declare show_nat.simps [simp del]

definition show_int :: "int \<Rightarrow> string" where
  "show_int i = (if i < 0 then CHR ''-'' # show_nat (nat (- i)) else show_nat (nat i))"

text \<open>The single quote of the format strings.\<close>

definition apostrophe :: string where
  "apostrophe = [CHR 0x27]"

subsection \<open>Values handed to the manager\<close>

text \<open>
  The fields of \<open>bmdepl.Registry\<close>, \<open>bmdepl.SSHTunnel\<close> and
  \<open>bmsshtunnel.Options\<close> are the ones manager.go reads and writes.
\<close>

record Registry =
  Username :: string
  Password :: string
  Host :: string
  Port :: int

text \<open>The zero value of the type, \<open>Registry{}\<close> in Go.\<close>

definition noRegistry :: Registry where
  "noRegistry = \<lparr>Username = [], Password = [], Host = [], Port = 0\<rparr>"

record SSHTunnel =
  Host :: string
  Port :: int
  User :: string
  Password :: string
  PrivateKey :: string

record Options =
  Host :: string
  Port :: int
  User :: string
  Password :: string
  PrivateKey :: string
  LocalForwardPort :: int
  RemoteForwardPort :: int

text \<open>
  The remaining values are opaque to the manager: it only passes them on. Each is a
  handle with a name. A cloud stemcell has its \<open>CID()\<close>, an extracted stemcell its
  \<open>ApplySpec()\<close>. A \<open>bmvm.VM\<close> is an interface value, so a variable of that type is
  a \<open>VM option\<close>, with \<open>None\<close> for nil.
\<close>

datatype VM = VM string
datatype Cloud = Cloud string
datatype Deployment = Deployment string
datatype DiskPool = DiskPool string
datatype Stage = Stage string
datatype StemcellApplySpec = StemcellApplySpec string

record CloudStemcell =
  CID :: string

record ExtractedStemcell =
  ApplySpec :: StemcellApplySpec

subsection \<open>Instances\<close>

text \<open>
  Modelled from the spec: \<open>Instance\<close> and \<open>NewInstance\<close> of instance.go, which is
  not among the sources. The spec's data model gives an instance its job name, its id
  and its VM handle, assigned at construction, and calls \<open>JobName()\<close> and \<open>ID()\<close>
  pure accessors. The VM manager, tunnel factory and logger that \<open>NewInstance\<close> also
  receives are the manager's own fields, the same for every instance it builds.
  \<open>Instance\<close> is an interface: a variable of that type is an \<open>Instance option\<close>.
\<close>

record Instance =
  instance_jobName :: string
  instance_id :: int
  instance_vm :: "VM option"

definition NewInstance :: "string \<Rightarrow> int \<Rightarrow> VM option \<Rightarrow> Instance" where
  "NewInstance jobName n vm = \<lparr>instance_jobName = jobName, instance_id = n, instance_vm = vm\<rparr>"

definition JobName :: "Instance \<Rightarrow> string" where
  "JobName i = instance_jobName i"

definition ID :: "Instance \<Rightarrow> int" where
  "ID i = instance_id i"

subsection \<open>Collaborators, world and log\<close>

text \<open>
  What arrives on the readiness channel that \<open>Create\<close> hands to the registry server:
  nothing, ever, or one value, nil or an error.
\<close>

datatype ready_signal = NeverSignals | Signals "error option"

text \<open>
  The log records every collaborator call the manager makes, in order, with its
  arguments and with what it returned. It is what the theorems observe.
\<close>

datatype event =
    RegistryStart string string string int
  | ReadySignal "error option"
  | RegistryStop
  | StepStarted Stage string
  | StepFinished Stage string
  | StepFailed Stage string error
  | VMFindCurrent "VM option" bool "error option"
  | VMCreate CloudStemcell Deployment "VM option" "error option"
  | PromoteAsCurrent CloudStemcell "error option"
  | WaitUntilReady Instance Options Stage "error option"
  | DiskPoolLookup Deployment string DiskPool "error option"
  | DiskDeploy DiskPool Cloud "VM option" Stage "error option"
  | StartJobs Instance StemcellApplySpec Deployment Stage "error option"
  | InstanceDelete Instance int int Stage "error option"

record 'w state =
  world :: 'w
  trace :: "event list"

text \<open>
  The fields of the manager (\<open>cloud\<close>, \<open>vmManager\<close>, \<open>registryServer\<close>,
  \<open>diskDeployer\<close>) and the methods of the values it is handed. \<open>Registry.IsEmpty\<close>
  is declared in the deployment package, outside the sources, and is a parameter too.
  The result of \<open>registryServer.Stop()\<close> is discarded by the \<open>defer\<close> statement.
\<close>

record 'w collaborators =
  cloud :: Cloud
  registry_IsEmpty :: "Registry \<Rightarrow> bool"
  registryServer_Start :: "string \<Rightarrow> string \<Rightarrow> string \<Rightarrow> int \<Rightarrow> 'w \<Rightarrow> ready_signal \<times> 'w"
  registryServer_Stop :: "'w \<Rightarrow> 'w"
  vmManager_FindCurrent :: "'w \<Rightarrow> (VM option \<times> bool \<times> error option) \<times> 'w"
  vmManager_Create :: "CloudStemcell \<Rightarrow> Deployment \<Rightarrow> 'w \<Rightarrow> (VM option \<times> error option) \<times> 'w"
  cloudStemcell_PromoteAsCurrent :: "CloudStemcell \<Rightarrow> 'w \<Rightarrow> error option \<times> 'w"
  instance_WaitUntilReady :: "Instance \<Rightarrow> Options \<Rightarrow> Stage \<Rightarrow> 'w \<Rightarrow> error option \<times> 'w"
  deployment_DiskPool :: "Deployment \<Rightarrow> string \<Rightarrow> 'w \<Rightarrow> (DiskPool \<times> error option) \<times> 'w"
  diskDeployer_Deploy :: "DiskPool \<Rightarrow> Cloud \<Rightarrow> VM option \<Rightarrow> Stage \<Rightarrow> 'w \<Rightarrow> error option \<times> 'w"
  instance_StartJobs :: "Instance \<Rightarrow> StemcellApplySpec \<Rightarrow> Deployment \<Rightarrow> Stage \<Rightarrow> 'w \<Rightarrow> error option \<times> 'w"
  instance_Delete :: "Instance \<Rightarrow> int \<Rightarrow> int \<Rightarrow> Stage \<Rightarrow> 'w \<Rightarrow> error option \<times> 'w"

text \<open>A collaborator call: run it on the world and append its event to the log.\<close>

definition call :: "('w \<Rightarrow> 'a \<times> 'w) \<Rightarrow> ('a \<Rightarrow> event) \<Rightarrow> 'w state \<Rightarrow> 'a \<times> 'w state" where
  "call operation ev s =
     (case operation (world s) of
        (r, w) \<Rightarrow> (r, \<lparr>world = w, trace = trace s @ [ev r]\<rparr>))"

text \<open>A run starts from a world and an empty log.\<close>

definition start :: "'w \<Rightarrow> 'w state" where
  "start w = \<lparr>world = w, trace = []\<rparr>"

subsection \<open>FindCurrent\<close>

definition FindCurrent :: "'w collaborators \<Rightarrow> 'w state \<Rightarrow> (Instance list \<times> error option) \<times> 'w state" where
  "FindCurrent m s =
     (let instances = [] in
      case call (vmManager_FindCurrent m) (\<lambda>(vm, found, err). VMFindCurrent vm found err) s of
        ((vm, found, err), s1) \<Rightarrow>
          (case err of
             Some e \<Rightarrow> ((instances, Some (WrapError e ''Finding currently deployed instances'')), s1)
           | None \<Rightarrow>
               if \<not> found then ((instances, None), s1)
               else
                 let inst = NewInstance ''unknown'' 0 vm;
                     instances = instances @ [inst]
                 in ((instances, err), s1)))"

subsection \<open>The event logger stage\<close>

text \<open>
  Modelled from the spec: \<open>Stage.PerformStep\<close> of the eventlogger package, which is
  not among the sources. The spec describes it as the operation that records the start
  of the named step, runs the work, records its success or failure, and returns the
  work's error unchanged. The work is a Go closure; \<open>c\<close> stands for the variables it
  captures and assigns.
\<close>

definition PerformStep ::
  "Stage \<Rightarrow> string \<Rightarrow> ('c \<Rightarrow> 'w state \<Rightarrow> (error option \<times> 'c) \<times> 'w state) \<Rightarrow>
   'c \<Rightarrow> 'w state \<Rightarrow> (error option \<times> 'c) \<times> 'w state" where
  "PerformStep stage name work c s =
     (case work c (s\<lparr>trace := trace s @ [StepStarted stage name]\<rparr>) of
        ((err, c'), s') \<Rightarrow>
          ((err, c'),
           s'\<lparr>trace := trace s' @
              [case err of None \<Rightarrow> StepFinished stage name
               | Some e \<Rightarrow> StepFailed stage name e]\<rparr>))"

subsection \<open>Create\<close>

text \<open>Line 110: the name of the tracked step.\<close>

definition stepName :: "string \<Rightarrow> int \<Rightarrow> CloudStemcell \<Rightarrow> string" where
  "stepName jobName n cloudStemcell =
     ''Creating VM for instance '' @ apostrophe @ jobName @ ''/'' @ show_int n @ apostrophe @
     '' from stemcell '' @ apostrophe @ CID cloudStemcell @ apostrophe"

text \<open>Line 118: the context of a failed promotion.\<close>

definition promoteContext :: "CloudStemcell \<Rightarrow> string" where
  "promoteContext cloudStemcell =
     ''Promoting stemcell as current '' @ apostrophe @ CID cloudStemcell @ apostrophe"

text \<open>
  Lines 112 to 121: the closure handed to \<open>PerformStep\<close>. It assigns the captured
  variable \<open>vm\<close>. It also assigns the captured \<open>err\<close>, which line 111 overwrites
  with the result of \<open>PerformStep\<close>, so only its return value is kept here.
\<close>

definition createVM ::
  "'w collaborators \<Rightarrow> CloudStemcell \<Rightarrow> Deployment \<Rightarrow> VM option \<Rightarrow> 'w state \<Rightarrow>
   (error option \<times> VM option) \<times> 'w state" where
  "createVM m cloudStemcell deployment vm0 s =
     (case call (vmManager_Create m cloudStemcell deployment)
             (\<lambda>(vm, err). VMCreate cloudStemcell deployment vm err) s of
        ((vm, Some e), s1) \<Rightarrow> ((Some (WrapError e ''Creating VM''), vm), s1)
      | ((vm, None), s1) \<Rightarrow>
          (case call (cloudStemcell_PromoteAsCurrent m cloudStemcell)
                  (PromoteAsCurrent cloudStemcell) s1 of
             (Some e, s2) \<Rightarrow>
               ((Some (WrapError e (promoteContext cloudStemcell)), vm), s2)
           | (None, s2) \<Rightarrow> ((None, vm), s2)))"

text \<open>Lines 129 to 137.\<close>

definition sshTunnelOptions :: "SSHTunnel \<Rightarrow> Registry \<Rightarrow> Options" where
  "sshTunnelOptions sshTunnelConfig registry =
     \<lparr>Host = SSHTunnel.Host sshTunnelConfig,
      Port = SSHTunnel.Port sshTunnelConfig,
      User = SSHTunnel.User sshTunnelConfig,
      Password = SSHTunnel.Password sshTunnelConfig,
      PrivateKey = SSHTunnel.PrivateKey sshTunnelConfig,
      LocalForwardPort = Registry.Port registry,
      RemoteForwardPort = Registry.Port registry\<rparr>"

text \<open>
  Lines 109 to 158: everything after the registry block. The result is the pair
  \<open>(instance, err)\<close> of the named results; \<open>instance\<close> is nil until line 127.
\<close>

definition createSteps ::
  "'w collaborators \<Rightarrow> string \<Rightarrow> int \<Rightarrow> Deployment \<Rightarrow> ExtractedStemcell \<Rightarrow> CloudStemcell \<Rightarrow>
   Registry \<Rightarrow> SSHTunnel \<Rightarrow> Stage \<Rightarrow> 'w state \<Rightarrow> (Instance option \<times> error option) \<times> 'w state" where
  "createSteps m jobName n deployment extractedStemcell cloudStemcell registry sshTunnelConfig
     eventLoggerStage s =
     (case PerformStep eventLoggerStage (stepName jobName n cloudStemcell)
             (createVM m cloudStemcell deployment) None s of
        ((Some e, vm), s1) \<Rightarrow> ((None, Some e), s1)
      | ((None, vm), s1) \<Rightarrow>
          let inst = NewInstance jobName n vm;
              opts = sshTunnelOptions sshTunnelConfig registry
          in
          (case call (instance_WaitUntilReady m inst opts eventLoggerStage)
                  (WaitUntilReady inst opts eventLoggerStage) s1 of
             (Some e, s2) \<Rightarrow>
               ((Some inst, Some (WrapError e ''Waiting until instance is ready'')), s2)
           | (None, s2) \<Rightarrow>
               (case call (deployment_DiskPool m deployment jobName)
                       (\<lambda>(diskPool, err). DiskPoolLookup deployment jobName diskPool err) s2 of
                  ((diskPool, Some e), s3) \<Rightarrow>
                    ((Some inst, Some (WrapError e ''Getting disk pool'')), s3)
                | ((diskPool, None), s3) \<Rightarrow>
                    (case call (diskDeployer_Deploy m diskPool (cloud m) vm eventLoggerStage)
                            (DiskDeploy diskPool (cloud m) vm eventLoggerStage) s3 of
                       (Some e, s4) \<Rightarrow> ((Some inst, Some (WrapError e ''Deploying disk'')), s4)
                     | (None, s4) \<Rightarrow>
                         (case call (instance_StartJobs m inst (ApplySpec extractedStemcell)
                                       deployment eventLoggerStage)
                                 (StartJobs inst (ApplySpec extractedStemcell) deployment
                                    eventLoggerStage) s4 of
                            (Some e, s5) \<Rightarrow> ((Some inst, Some e), s5)
                          | (None, s5) \<Rightarrow> ((Some inst, None), s5))))))"

text \<open>
  Lines 179 to 184 and line 100: \<open>go m.startRegistry(registry, registryReadyErrCh)\<close>.
  The server's \<open>Start\<close> runs in the background with the four fields of the registry;
  what the manager sees of it is what arrives on the channel. The error \<open>Start\<close>
  itself returns later is only written to the debug log.
\<close>

definition startRegistry :: "'w collaborators \<Rightarrow> Registry \<Rightarrow> 'w state \<Rightarrow> ready_signal \<times> 'w state" where
  "startRegistry m registry s =
     (case registryServer_Start m (Username registry) (Registry.Password registry)
             (Registry.Host registry) (Registry.Port registry) (world s) of
        (sig, w) \<Rightarrow>
          (sig, \<lparr>world = w,
                 trace = trace s @
                   [RegistryStart (Username registry) (Registry.Password registry)
                      (Registry.Host registry) (Registry.Port registry)]\<rparr>))"

text \<open>
  Lines 87 to 159. The result is \<open>None\<close> when \<open>Create\<close> never returns: the receive
  of line 103 waits for a value that is never sent. Otherwise it is \<open>Some\<close> of the
  pair \<open>(instance, err)\<close>. The \<open>defer\<close> of line 101 is registered before the
  receive, and the deferred \<open>Stop\<close> runs when \<open>Create\<close> returns, after the results
  are set.
\<close>

definition Create ::
  "'w collaborators \<Rightarrow> string \<Rightarrow> int \<Rightarrow> Deployment \<Rightarrow> ExtractedStemcell \<Rightarrow> CloudStemcell \<Rightarrow>
   Registry \<Rightarrow> SSHTunnel \<Rightarrow> Stage \<Rightarrow> 'w state \<Rightarrow>
   (Instance option \<times> error option) option \<times> 'w state" where
  "Create m jobName n deployment extractedStemcell cloudStemcell registry sshTunnelConfig
     eventLoggerStage s =
     (if \<not> registry_IsEmpty m registry then
        (case startRegistry m registry s of
           (NeverSignals, s1) \<Rightarrow> (None, s1)
         | (Signals err, s1) \<Rightarrow>
             let s2 = s1\<lparr>trace := trace s1 @ [ReadySignal err]\<rparr> in
             (case (case err of
                      Some e \<Rightarrow> ((None, Some (WrapError e ''Starting registry'')), s2)
                    | None \<Rightarrow>
                        createSteps m jobName n deployment extractedStemcell cloudStemcell
                          registry sshTunnelConfig eventLoggerStage s2) of
                (res, s3) \<Rightarrow>
                  (Some res,
                   \<lparr>world = registryServer_Stop m (world s3),
                    trace = trace s3 @ [RegistryStop]\<rparr>)))
      else
        (case createSteps m jobName n deployment extractedStemcell cloudStemcell
                registry sshTunnelConfig eventLoggerStage s of
           (res, s1) \<Rightarrow> (Some res, s1)))"

subsection \<open>The runs of Create\<close>

text \<open>
  The seven ways lines 109 to 158 can run, each as the pair of results and the log it
  leaves: the VM creation fails, the promotion fails, the wait fails, the disk pool
  lookup fails, the disk deployment fails, the start of the jobs fails, or all succeed.
  Lemma \<open>createSteps_path\<close> below shows that every run of \<open>createSteps\<close> is one of
  them.
\<close>

inductive create_path ::
  "Cloud \<Rightarrow> string \<Rightarrow> int \<Rightarrow> Deployment \<Rightarrow> ExtractedStemcell \<Rightarrow> CloudStemcell \<Rightarrow> Registry \<Rightarrow>
   SSHTunnel \<Rightarrow> Stage \<Rightarrow> Instance option \<times> error option \<Rightarrow> event list \<Rightarrow> bool"
  for c jobName n d es cs registry cfg stage
where
  vm_failed:
    "create_path c jobName n d es cs registry cfg stage
       (None, Some (WrapError e ''Creating VM''))
       [StepStarted stage (stepName jobName n cs), VMCreate cs d vm (Some e),
        StepFailed stage (stepName jobName n cs) (WrapError e ''Creating VM'')]"
| promote_failed:
    "create_path c jobName n d es cs registry cfg stage
       (None, Some (WrapError e (promoteContext cs)))
       [StepStarted stage (stepName jobName n cs), VMCreate cs d vm None,
        PromoteAsCurrent cs (Some e),
        StepFailed stage (stepName jobName n cs)
          (WrapError e (promoteContext cs))]"
| wait_failed:
    "create_path c jobName n d es cs registry cfg stage
       (Some (NewInstance jobName n vm), Some (WrapError e ''Waiting until instance is ready''))
       [StepStarted stage (stepName jobName n cs), VMCreate cs d vm None,
        PromoteAsCurrent cs None, StepFinished stage (stepName jobName n cs),
        WaitUntilReady (NewInstance jobName n vm) (sshTunnelOptions cfg registry) stage (Some e)]"
| pool_failed:
    "create_path c jobName n d es cs registry cfg stage
       (Some (NewInstance jobName n vm), Some (WrapError e ''Getting disk pool''))
       [StepStarted stage (stepName jobName n cs), VMCreate cs d vm None,
        PromoteAsCurrent cs None, StepFinished stage (stepName jobName n cs),
        WaitUntilReady (NewInstance jobName n vm) (sshTunnelOptions cfg registry) stage None,
        DiskPoolLookup d jobName pool (Some e)]"
| deploy_failed:
    "create_path c jobName n d es cs registry cfg stage
       (Some (NewInstance jobName n vm), Some (WrapError e ''Deploying disk''))
       [StepStarted stage (stepName jobName n cs), VMCreate cs d vm None,
        PromoteAsCurrent cs None, StepFinished stage (stepName jobName n cs),
        WaitUntilReady (NewInstance jobName n vm) (sshTunnelOptions cfg registry) stage None,
        DiskPoolLookup d jobName pool None,
        DiskDeploy pool c vm stage (Some e)]"
| jobs_failed:
    "create_path c jobName n d es cs registry cfg stage
       (Some (NewInstance jobName n vm), Some e)
       [StepStarted stage (stepName jobName n cs), VMCreate cs d vm None,
        PromoteAsCurrent cs None, StepFinished stage (stepName jobName n cs),
        WaitUntilReady (NewInstance jobName n vm) (sshTunnelOptions cfg registry) stage None,
        DiskPoolLookup d jobName pool None,
        DiskDeploy pool c vm stage None,
        StartJobs (NewInstance jobName n vm) (ApplySpec es) d stage (Some e)]"
| created:
    "create_path c jobName n d es cs registry cfg stage
       (Some (NewInstance jobName n vm), None)
       [StepStarted stage (stepName jobName n cs), VMCreate cs d vm None,
        PromoteAsCurrent cs None, StepFinished stage (stepName jobName n cs),
        WaitUntilReady (NewInstance jobName n vm) (sshTunnelOptions cfg registry) stage None,
        DiskPoolLookup d jobName pool None,
        DiskDeploy pool c vm stage None,
        StartJobs (NewInstance jobName n vm) (ApplySpec es) d stage None]"

text \<open>The events of the registry block, lines 98 to 107, and the others.\<close>

fun registry_event :: "event \<Rightarrow> bool" where
  "registry_event (RegistryStart username password host port) = True"
| "registry_event (ReadySignal err) = True"
| "registry_event RegistryStop = True"
| "registry_event ev = False"

definition step_events :: "event list \<Rightarrow> event list" where
  "step_events evs = filter (\<lambda>ev. \<not> registry_event ev) evs"

text \<open>A failed call of one of the four steps that follow the construction of the instance.\<close>

fun later_failure :: "event \<Rightarrow> bool" where
  "later_failure (WaitUntilReady inst opts stage (Some e)) = True"
| "later_failure (DiskPoolLookup deployment jobName diskPool (Some e)) = True"
| "later_failure (DiskDeploy diskPool c vm stage (Some e)) = True"
| "later_failure (StartJobs inst spec deployment stage (Some e)) = True"
| "later_failure ev = False"

subsection \<open>DeleteAll\<close>

text \<open>Line 173: the context of a failed deletion.\<close>

definition deleteContext :: "Instance \<Rightarrow> string" where
  "deleteContext inst =
     ''Deleting existing instance '' @ apostrophe @ JobName inst @ ''/'' @ show_int (ID inst) @
     apostrophe"

text \<open>Lines 171 to 175: the loop over the instances found.\<close>

fun deleteInstances ::
  "'w collaborators \<Rightarrow> int \<Rightarrow> int \<Rightarrow> Stage \<Rightarrow> Instance list \<Rightarrow> 'w state \<Rightarrow>
   error option \<times> 'w state" where
  "deleteInstances m pingTimeout pingDelay eventLoggerStage [] s = (None, s)"
| "deleteInstances m pingTimeout pingDelay eventLoggerStage (inst # instances) s =
     (case call (instance_Delete m inst pingTimeout pingDelay eventLoggerStage)
             (InstanceDelete inst pingTimeout pingDelay eventLoggerStage) s of
        (Some e, s1) \<Rightarrow>
          (Some (WrapError e (deleteContext inst)), s1)
      | (None, s1) \<Rightarrow> deleteInstances m pingTimeout pingDelay eventLoggerStage instances s1)"

text \<open>Lines 161 to 177. The durations are \<open>time.Duration\<close>, a count of nanoseconds.\<close>

definition DeleteAll ::
  "'w collaborators \<Rightarrow> int \<Rightarrow> int \<Rightarrow> Stage \<Rightarrow> 'w state \<Rightarrow> error option \<times> 'w state" where
  "DeleteAll m pingTimeout pingDelay eventLoggerStage s =
     (case FindCurrent m s of
        ((instances, Some e), s1) \<Rightarrow> (Some e, s1)
      | ((instances, None), s1) \<Rightarrow>
          deleteInstances m pingTimeout pingDelay eventLoggerStage instances s1)"

subsection \<open>A scenario\<close>

text \<open>
  The scenario of the spec, used to run the model on concrete inputs: job
  \<open>worker/0\<close>, a registry at 10.0.0.5:6868, a VM manager that returns the VM
  \<open>vm-123\<close>, and collaborators that all succeed. The world counts the calls made.
  Here a registry is empty when it is the zero value of its type.
\<close>

definition scenario :: "nat collaborators" where
  "scenario =
     \<lparr>cloud = Cloud ''cloud'',
      registry_IsEmpty = (\<lambda>r. r = noRegistry),
      registryServer_Start = (\<lambda>username password host port w. (Signals None, Suc w)),
      registryServer_Stop = Suc,
      vmManager_FindCurrent = (\<lambda>w. ((Some (VM ''vm-123''), True, None), Suc w)),
      vmManager_Create = (\<lambda>stemcell deployment w. ((Some (VM ''vm-123''), None), Suc w)),
      cloudStemcell_PromoteAsCurrent = (\<lambda>stemcell w. (None, Suc w)),
      instance_WaitUntilReady = (\<lambda>inst opts stage w. (None, Suc w)),
      deployment_DiskPool = (\<lambda>deployment jobName w. ((DiskPool ''10GB'', None), Suc w)),
      diskDeployer_Deploy = (\<lambda>diskPool cloud vm stage w. (None, Suc w)),
      instance_StartJobs = (\<lambda>inst spec deployment stage w. (None, Suc w)),
      instance_Delete = (\<lambda>inst pingTimeout pingDelay stage w. (None, Suc w))\<rparr>"

definition registry6868 :: Registry where
  "registry6868 =
     \<lparr>Username = ''admin'', Registry.Password = ''secret'', Registry.Host = ''10.0.0.5'',
      Registry.Port = 6868\<rparr>"

definition tunnelCfg :: SSHTunnel where
  "tunnelCfg =
     \<lparr>SSHTunnel.Host = ''10.0.0.9'', SSHTunnel.Port = 22, SSHTunnel.User = ''vcap'',
      SSHTunnel.Password = ''pw'', SSHTunnel.PrivateKey = ''key''\<rparr>"

definition deployment1 :: Deployment where
  "deployment1 = Deployment ''micro''"

definition stage1 :: Stage where
  "stage1 = Stage ''deploy''"



definition promoteFails :: "nat collaborators" where
  "promoteFails =
     scenario\<lparr>cloudStemcell_PromoteAsCurrent :=
       (\<lambda>stemcell w. (Some (Error ''stemcell not found''), Suc w))\<rparr>"

definition deployFails :: "nat collaborators" where
  "deployFails =
     scenario\<lparr>diskDeployer_Deploy :=
       (\<lambda>diskPool cloud vm stage w. (Some (Error ''disk quota exceeded''), Suc w))\<rparr>"

definition jobsFail :: "nat collaborators" where
  "jobsFail =
     scenario\<lparr>instance_StartJobs :=
       (\<lambda>inst spec deployment stage w. (Some (Error ''Starting jobs: timed out''), Suc w))\<rparr>"

definition deleteFails :: "nat collaborators" where
  "deleteFails =
     scenario\<lparr>instance_Delete :=
       (\<lambda>inst pingTimeout pingDelay stage w.
          (if ID inst = 0 then Some (Error ''VM is locked'') else None, Suc w))\<rparr>"

definition stemcell1 :: CloudStemcell where
  "stemcell1 = \<lparr>CID = ''sc-1''\<rparr>"

definition extracted1 :: ExtractedStemcell where
  "extracted1 = \<lparr>ApplySpec = StemcellApplySpec ''spec''\<rparr>"

section \<open>Theorems\<close>

subsection \<open>Every run of Create is one of the runs above\<close>

lemma createSteps_path:
  "\<exists>evs. trace (snd (createSteps m jobName n d es cs registry cfg stage s)) = trace s @ evs
     \<and> create_path (cloud m) jobName n d es cs registry cfg stage
         (fst (createSteps m jobName n d es cs registry cfg stage s)) evs"
  by (auto simp: createSteps_def PerformStep_def createVM_def call_def Let_def
      split: prod.splits option.splits intro: create_path.intros)


text \<open>
  The four shapes of a run of \<open>Create\<close>: blocked on the readiness channel, stopped by
  a failed registry start, run with a registry, run without one.
\<close>

lemma Create_cases [consumes 1, case_names blocked start_failed with_registry no_registry]:
  assumes "Create m jobName n d es cs registry cfg stage (start w) = (res, s')"
  obtains
    (blocked) "\<not> registry_IsEmpty m registry" "res = None"
      "fst (registryServer_Start m (Username registry) (Registry.Password registry)
              (Registry.Host registry) (Registry.Port registry) w) = NeverSignals"
      "trace s' = [RegistryStart (Username registry) (Registry.Password registry)
                     (Registry.Host registry) (Registry.Port registry)]"
  | (start_failed) e where "\<not> registry_IsEmpty m registry"
      "res = Some (None, Some (WrapError e ''Starting registry''))"
      "fst (registryServer_Start m (Username registry) (Registry.Password registry)
              (Registry.Host registry) (Registry.Port registry) w) = Signals (Some e)"
      "trace s' = [RegistryStart (Username registry) (Registry.Password registry)
                     (Registry.Host registry) (Registry.Port registry),
                   ReadySignal (Some e), RegistryStop]"
  | (with_registry) r evs where "\<not> registry_IsEmpty m registry" "res = Some r"
      "fst (registryServer_Start m (Username registry) (Registry.Password registry)
              (Registry.Host registry) (Registry.Port registry) w) = Signals None"
      "create_path (cloud m) jobName n d es cs registry cfg stage r evs"
      "trace s' = [RegistryStart (Username registry) (Registry.Password registry)
                     (Registry.Host registry) (Registry.Port registry),
                   ReadySignal None] @ evs @ [RegistryStop]"
  | (no_registry) r evs where "registry_IsEmpty m registry" "res = Some r"
      "create_path (cloud m) jobName n d es cs registry cfg stage r evs"
      "trace s' = evs"
proof (cases "registry_IsEmpty m registry")
  case True
  from createSteps_path [of m jobName n d es cs registry cfg stage "start w"]
  obtain evs where
    "trace (snd (createSteps m jobName n d es cs registry cfg stage (start w))) = evs"
    "create_path (cloud m) jobName n d es cs registry cfg stage
       (fst (createSteps m jobName n d es cs registry cfg stage (start w))) evs"
    by (auto simp: start_def)
  with True assms show ?thesis
    by (intro no_registry
          [of "fst (createSteps m jobName n d es cs registry cfg stage (start w))" evs])
      (auto simp: Create_def split: prod.splits)
next
  case False
  obtain sig w1 where st:
    "registryServer_Start m (Username registry) (Registry.Password registry)
       (Registry.Host registry) (Registry.Port registry) w = (sig, w1)"
    by (cases "registryServer_Start m (Username registry) (Registry.Password registry)
                 (Registry.Host registry) (Registry.Port registry) w")
  show ?thesis
  proof (cases sig)
    case NeverSignals
    with False st assms show ?thesis
      by (intro blocked) (auto simp: Create_def startRegistry_def start_def)
  next
    case (Signals err)
    show ?thesis
    proof (cases err)
      case (Some e)
      with False st Signals assms show ?thesis
        by (intro start_failed [of e]) (auto simp: Create_def startRegistry_def start_def)
    next
      case None
      let ?s2 = "\<lparr>world = w1,
                  trace = [RegistryStart (Username registry) (Registry.Password registry)
                             (Registry.Host registry) (Registry.Port registry),
                           ReadySignal None]\<rparr>"
      from createSteps_path [of m jobName n d es cs registry cfg stage ?s2]
      obtain evs where
        "trace (snd (createSteps m jobName n d es cs registry cfg stage ?s2)) = trace ?s2 @ evs"
        "create_path (cloud m) jobName n d es cs registry cfg stage
           (fst (createSteps m jobName n d es cs registry cfg stage ?s2)) evs"
        by blast
      with False st Signals None assms show ?thesis
        by (intro with_registry
              [of "fst (createSteps m jobName n d es cs registry cfg stage ?s2)" evs])
          (auto simp: Create_def startRegistry_def start_def split: prod.splits)
    qed
  qed
qed

text \<open>The definitions a run on concrete inputs unfolds.\<close>

lemmas run_defs =
  Create_def startRegistry_def createSteps_def PerformStep_def createVM_def call_def start_def
  Let_def scenario_def noRegistry_def registry6868_def

subsection \<open>The deletion loop\<close>

lemma deleteInstances_log:
  "deleteInstances m pingTimeout pingDelay stage instances s = (r, t) \<Longrightarrow>
     (r = None \<and>
      trace t = trace s @ map (\<lambda>i. InstanceDelete i pingTimeout pingDelay stage None) instances)
     \<or> (\<exists>before i after e.
           instances = before @ i # after \<and>
           r = Some (WrapError e (deleteContext i)) \<and>
           trace t = trace s @
             map (\<lambda>i. InstanceDelete i pingTimeout pingDelay stage None) before @
             [InstanceDelete i pingTimeout pingDelay stage (Some e)])"
proof (induction instances arbitrary: s)
  case Nil
  then show ?case by simp
next
  case (Cons a instances)
  obtain x s1 where c:
    "call (instance_Delete m a pingTimeout pingDelay stage)
       (InstanceDelete a pingTimeout pingDelay stage) s = (x, s1)"
    by (cases "call (instance_Delete m a pingTimeout pingDelay stage)
                 (InstanceDelete a pingTimeout pingDelay stage) s")
  then have t1: "trace s1 = trace s @ [InstanceDelete a pingTimeout pingDelay stage x]"
    by (auto simp: call_def split: prod.splits)
  show ?case
  proof (cases x)
    case (Some e)
    with c Cons.prems have "r = Some (WrapError e (deleteContext a))" and "t = s1"
      by simp_all
    with t1 Some have
      "a # instances = [] @ a # instances \<and>
       r = Some (WrapError e (deleteContext a)) \<and>
       trace t = trace s @
         map (\<lambda>i. InstanceDelete i pingTimeout pingDelay stage None) [] @
         [InstanceDelete a pingTimeout pingDelay stage (Some e)]"
      by simp
    then show ?thesis by blast
  next
    case None
    with c Cons.prems have
      "deleteInstances m pingTimeout pingDelay stage instances s1 = (r, t)"
      by simp
    from Cons.IH [OF this] show ?thesis
    proof
      assume "r = None \<and>
        trace t = trace s1 @
          map (\<lambda>i. InstanceDelete i pingTimeout pingDelay stage None) instances"
      with t1 None show ?thesis by simp
    next
      assume "\<exists>before i after e.
           instances = before @ i # after \<and>
           r = Some (WrapError e (deleteContext i)) \<and>
           trace t = trace s1 @
             map (\<lambda>i. InstanceDelete i pingTimeout pingDelay stage None) before @
             [InstanceDelete i pingTimeout pingDelay stage (Some e)]"
      then obtain before i after e where
        "instances = before @ i # after"
        "r = Some (WrapError e (deleteContext i))"
        "trace t = trace s1 @
             map (\<lambda>i. InstanceDelete i pingTimeout pingDelay stage None) before @
             [InstanceDelete i pingTimeout pingDelay stage (Some e)]"
        by blast
      with t1 None have
        "a # instances = (a # before) @ i # after \<and>
         r = Some (WrapError e (deleteContext i)) \<and>
         trace t = trace s @
           map (\<lambda>i. InstanceDelete i pingTimeout pingDelay stage None) (a # before) @
           [InstanceDelete i pingTimeout pingDelay stage (Some e)]"
        by simp
      then show ?thesis by blast
    qed
  qed
qed

text \<open>
  C4. \<open>FindCurrent\<close> asks the VM manager once. When the lookup fails, it returns the
  empty sequence and the error wrapped with "Finding currently deployed instances".
  When the lookup reports no VM, it returns the empty sequence and no error. When it
  reports a VM, it returns exactly one instance, with job name "unknown" and id 0,
  holding that VM, and no error.
\<close>

theorem FindCurrent_result:
  "vmManager_FindCurrent m w = ((vm, found, err), w') \<Longrightarrow>
   snd (FindCurrent m (start w)) = \<lparr>world = w', trace = [VMFindCurrent vm found err]\<rparr>
   \<and> (\<forall>e. err = Some e \<longrightarrow>
          fst (FindCurrent m (start w)) =
            ([], Some (WrapError e ''Finding currently deployed instances'')))
   \<and> (err = None \<and> \<not> found \<longrightarrow> fst (FindCurrent m (start w)) = ([], None))
   \<and> (err = None \<and> found \<longrightarrow>
        (\<exists>i. fst (FindCurrent m (start w)) = ([i], None)
           \<and> JobName i = ''unknown'' \<and> ID i = 0 \<and> instance_vm i = vm))"
  by (simp add: FindCurrent_def call_def start_def NewInstance_def JobName_def ID_def
      split: option.splits)

theorem FindCurrent_result_witness:
  "vmManager_FindCurrent scenario 0 = ((Some (VM ''vm-123''), True, None), 1)
   \<and> FindCurrent scenario (start 0) =
       (([NewInstance ''unknown'' 0 (Some (VM ''vm-123''))], None),
        \<lparr>world = 1, trace = [VMFindCurrent (Some (VM ''vm-123'')) True None]\<rparr>)"
proof -
  have h: "vmManager_FindCurrent scenario 0 = ((Some (VM ''vm-123''), True, None), 1)"
    by (simp add: scenario_def)
  from FindCurrent_result [OF h] show ?thesis
    using h by (auto simp: prod_eq_iff NewInstance_def JobName_def ID_def)
qed





text \<open>
  C2. Once the VM step has succeeded, \<open>Create\<close> returns a non-nil instance whatever
  happens next: the instance built from the job name, the id and the VM that the VM
  manager returned. Whenever the wait, the disk pool lookup, the disk deployment or the
  start of the jobs fails, the VM step had succeeded and \<open>Create\<close> returns an error,
  so that instance comes back alongside the error.
\<close>

theorem Create_partial_instance:
  assumes "Create m jobName n d es cs registry cfg stage (start w) = (Some (inst, err), s')"
  shows "(StepFinished stage (stepName jobName n cs) \<in> set (trace s') \<longrightarrow>
            (\<exists>vm. VMCreate cs d vm None \<in> set (trace s') \<and>
               inst = Some (NewInstance jobName n vm) \<and>
               JobName (NewInstance jobName n vm) = jobName \<and>
               ID (NewInstance jobName n vm) = n \<and>
               instance_vm (NewInstance jobName n vm) = vm))
   \<and> (\<forall>ev \<in> set (trace s'). later_failure ev \<longrightarrow>
          StepFinished stage (stepName jobName n cs) \<in> set (trace s') \<and>
          inst \<noteq> None \<and> err \<noteq> None)"
  using assms
proof (cases rule: Create_cases)
  case blocked
  then show ?thesis by simp
next
  case (start_failed e)
  then show ?thesis by simp
next
  case (with_registry r evs)
  from with_registry(4) show ?thesis
    by cases (use with_registry(2,5) in \<open>simp_all add: NewInstance_def JobName_def ID_def\<close>)
next
  case (no_registry r evs)
  from no_registry(3) show ?thesis
    by cases (use no_registry(2,4) in \<open>simp_all add: NewInstance_def JobName_def ID_def\<close>)
qed

theorem Create_partial_instance_witness:
  "Create deployFails ''worker'' 0 deployment1 extracted1 stemcell1 registry6868 tunnelCfg
       stage1 (start 0) =
     (Some (Some (NewInstance ''worker'' 0 (Some (VM ''vm-123''))),
            Some (WrapError (Error ''disk quota exceeded'') ''Deploying disk'')),
      \<lparr>world = 7,
       trace = [RegistryStart ''admin'' ''secret'' ''10.0.0.5'' 6868, ReadySignal None,
                StepStarted stage1 (stepName ''worker'' 0 stemcell1),
                VMCreate stemcell1 deployment1 (Some (VM ''vm-123'')) None,
                PromoteAsCurrent stemcell1 None,
                StepFinished stage1 (stepName ''worker'' 0 stemcell1),
                WaitUntilReady (NewInstance ''worker'' 0 (Some (VM ''vm-123'')))
                  (sshTunnelOptions tunnelCfg registry6868) stage1 None,
                DiskPoolLookup deployment1 ''worker'' (DiskPool ''10GB'') None,
                DiskDeploy (DiskPool ''10GB'') (Cloud ''cloud'') (Some (VM ''vm-123'')) stage1
                  (Some (Error ''disk quota exceeded'')),
                RegistryStop]\<rparr>)
   \<and> instance_vm (NewInstance ''worker'' 0 (Some (VM ''vm-123''))) = Some (VM ''vm-123'')"
proof -
  have h: "Create deployFails ''worker'' 0 deployment1 extracted1 stemcell1 registry6868
       tunnelCfg stage1 (start 0) =
     (Some (Some (NewInstance ''worker'' 0 (Some (VM ''vm-123''))),
            Some (WrapError (Error ''disk quota exceeded'') ''Deploying disk'')),
      \<lparr>world = 7,
       trace = [RegistryStart ''admin'' ''secret'' ''10.0.0.5'' 6868, ReadySignal None,
                StepStarted stage1 (stepName ''worker'' 0 stemcell1),
                VMCreate stemcell1 deployment1 (Some (VM ''vm-123'')) None,
                PromoteAsCurrent stemcell1 None,
                StepFinished stage1 (stepName ''worker'' 0 stemcell1),
                WaitUntilReady (NewInstance ''worker'' 0 (Some (VM ''vm-123'')))
                  (sshTunnelOptions tunnelCfg registry6868) stage1 None,
                DiskPoolLookup deployment1 ''worker'' (DiskPool ''10GB'') None,
                DiskDeploy (DiskPool ''10GB'') (Cloud ''cloud'') (Some (VM ''vm-123'')) stage1
                  (Some (Error ''disk quota exceeded'')),
                RegistryStop]\<rparr>)"
    by (simp add: deployFails_def run_defs)
  from Create_partial_instance [OF h] show ?thesis
    using h by (simp add: NewInstance_def)
qed

text \<open>
  C6. A failed \<open>WaitUntilReady\<close> is returned wrapped with "Waiting until instance
  is ready", a failed disk pool lookup with "Getting disk pool", a failed disk
  deployment with "Deploying disk", and a failed \<open>StartJobs\<close> as it is. In each case
  the failed call is the last step \<open>Create\<close> makes: no later step runs.
\<close>

theorem Create_later_failures:
  assumes "Create m jobName n d es cs registry cfg stage (start w) = (res, s')"
  shows "(\<forall>i opts st e. WaitUntilReady i opts st (Some e) \<in> set (trace s') \<longrightarrow>
            res = Some (Some i, Some (WrapError e ''Waiting until instance is ready'')) \<and>
            last (step_events (trace s')) = WaitUntilReady i opts st (Some e))
   \<and> (\<forall>dd j pool e. DiskPoolLookup dd j pool (Some e) \<in> set (trace s') \<longrightarrow>
          (\<exists>i. res = Some (Some i, Some (WrapError e ''Getting disk pool''))) \<and>
          last (step_events (trace s')) = DiskPoolLookup dd j pool (Some e))
   \<and> (\<forall>pool c vm st e. DiskDeploy pool c vm st (Some e) \<in> set (trace s') \<longrightarrow>
          (\<exists>i. res = Some (Some i, Some (WrapError e ''Deploying disk''))) \<and>
          last (step_events (trace s')) = DiskDeploy pool c vm st (Some e))
   \<and> (\<forall>i spec dd st e. StartJobs i spec dd st (Some e) \<in> set (trace s') \<longrightarrow>
          res = Some (Some i, Some e) \<and>
          last (step_events (trace s')) = StartJobs i spec dd st (Some e))"
  using assms
proof (cases rule: Create_cases)
  case blocked
  then show ?thesis by simp
next
  case (start_failed e)
  then show ?thesis by simp
next
  case (with_registry r evs)
  from with_registry(4) show ?thesis
    by cases (simp_all add: with_registry(2,5) step_events_def)
next
  case (no_registry r evs)
  from no_registry(3) show ?thesis
    by cases (simp_all add: no_registry(2,4) step_events_def)
qed

theorem Create_later_failures_witness:
  "Create jobsFail ''worker'' 0 deployment1 extracted1 stemcell1 noRegistry tunnelCfg
       stage1 (start 0) =
     (Some (Some (NewInstance ''worker'' 0 (Some (VM ''vm-123''))),
            Some (Error ''Starting jobs: timed out'')),
      \<lparr>world = 6,
       trace = [StepStarted stage1 (stepName ''worker'' 0 stemcell1),
                VMCreate stemcell1 deployment1 (Some (VM ''vm-123'')) None,
                PromoteAsCurrent stemcell1 None,
                StepFinished stage1 (stepName ''worker'' 0 stemcell1),
                WaitUntilReady (NewInstance ''worker'' 0 (Some (VM ''vm-123'')))
                  (sshTunnelOptions tunnelCfg noRegistry) stage1 None,
                DiskPoolLookup deployment1 ''worker'' (DiskPool ''10GB'') None,
                DiskDeploy (DiskPool ''10GB'') (Cloud ''cloud'') (Some (VM ''vm-123'')) stage1 None,
                StartJobs (NewInstance ''worker'' 0 (Some (VM ''vm-123''))) (ApplySpec extracted1)
                  deployment1 stage1 (Some (Error ''Starting jobs: timed out''))]\<rparr>)
   \<and> last (step_events (trace (snd (Create jobsFail ''worker'' 0 deployment1 extracted1
        stemcell1 noRegistry tunnelCfg stage1 (start 0))))) =
       StartJobs (NewInstance ''worker'' 0 (Some (VM ''vm-123''))) (ApplySpec extracted1)
         deployment1 stage1 (Some (Error ''Starting jobs: timed out''))"
proof -
  have h: "Create jobsFail ''worker'' 0 deployment1 extracted1 stemcell1 noRegistry tunnelCfg
       stage1 (start 0) =
     (Some (Some (NewInstance ''worker'' 0 (Some (VM ''vm-123''))),
            Some (Error ''Starting jobs: timed out'')),
      \<lparr>world = 6,
       trace = [StepStarted stage1 (stepName ''worker'' 0 stemcell1),
                VMCreate stemcell1 deployment1 (Some (VM ''vm-123'')) None,
                PromoteAsCurrent stemcell1 None,
                StepFinished stage1 (stepName ''worker'' 0 stemcell1),
                WaitUntilReady (NewInstance ''worker'' 0 (Some (VM ''vm-123'')))
                  (sshTunnelOptions tunnelCfg noRegistry) stage1 None,
                DiskPoolLookup deployment1 ''worker'' (DiskPool ''10GB'') None,
                DiskDeploy (DiskPool ''10GB'') (Cloud ''cloud'') (Some (VM ''vm-123'')) stage1 None,
                StartJobs (NewInstance ''worker'' 0 (Some (VM ''vm-123''))) (ApplySpec extracted1)
                  deployment1 stage1 (Some (Error ''Starting jobs: timed out''))]\<rparr>)"
    by (simp add: jobsFail_def run_defs)
  from Create_later_failures [OF h] show ?thesis
    using h by simp
qed

text \<open>
  C7. With an empty registry, \<open>Create\<close> always returns: it does not wait for a
  signal. Its log holds no registry event, neither a start nor a received signal nor
  a stop, and begins with the start of the VM step followed by the VM manager's
  creation call. An error it returns comes with a failed step in the log, not from the
  registry block.
\<close>

theorem Create_empty_registry:
  assumes "registry_IsEmpty m registry"
    and "Create m jobName n d es cs registry cfg stage (start w) = (res, s')"
  shows "res \<noteq> None
   \<and> (\<forall>ev \<in> set (trace s'). \<not> registry_event ev)
   \<and> (\<exists>vm err rest. trace s' =
         StepStarted stage (stepName jobName n cs) # VMCreate cs d vm err # rest)
   \<and> (\<forall>inst e. res = Some (inst, Some e) \<longrightarrow>
         (\<exists>ev \<in> set (trace s'). later_failure ev \<or>
            ev = StepFailed stage (stepName jobName n cs) e))"
  using assms(2)
proof (cases rule: Create_cases)
  case blocked
  with assms(1) show ?thesis by simp
next
  case (start_failed e)
  with assms(1) show ?thesis by simp
next
  case (with_registry r evs)
  with assms(1) show ?thesis by simp
next
  case (no_registry r evs)
  from no_registry(3) show ?thesis
    by cases (simp_all add: no_registry(2,4))
qed

theorem Create_empty_registry_witness:
  "registry_IsEmpty scenario noRegistry
   \<and> Create scenario ''worker'' 0 deployment1 extracted1 stemcell1 noRegistry tunnelCfg
       stage1 (start 0) =
     (Some (Some (NewInstance ''worker'' 0 (Some (VM ''vm-123''))), None),
      \<lparr>world = 6,
       trace = [StepStarted stage1 (stepName ''worker'' 0 stemcell1),
                VMCreate stemcell1 deployment1 (Some (VM ''vm-123'')) None,
                PromoteAsCurrent stemcell1 None,
                StepFinished stage1 (stepName ''worker'' 0 stemcell1),
                WaitUntilReady (NewInstance ''worker'' 0 (Some (VM ''vm-123'')))
                  (sshTunnelOptions tunnelCfg noRegistry) stage1 None,
                DiskPoolLookup deployment1 ''worker'' (DiskPool ''10GB'') None,
                DiskDeploy (DiskPool ''10GB'') (Cloud ''cloud'') (Some (VM ''vm-123'')) stage1 None,
                StartJobs (NewInstance ''worker'' 0 (Some (VM ''vm-123''))) (ApplySpec extracted1)
                  deployment1 stage1 None]\<rparr>)"
proof -
  have h1: "registry_IsEmpty scenario noRegistry"
    by (simp add: scenario_def)
  have h2: "Create scenario ''worker'' 0 deployment1 extracted1 stemcell1 noRegistry tunnelCfg
       stage1 (start 0) =
     (Some (Some (NewInstance ''worker'' 0 (Some (VM ''vm-123''))), None),
      \<lparr>world = 6,
       trace = [StepStarted stage1 (stepName ''worker'' 0 stemcell1),
                VMCreate stemcell1 deployment1 (Some (VM ''vm-123'')) None,
                PromoteAsCurrent stemcell1 None,
                StepFinished stage1 (stepName ''worker'' 0 stemcell1),
                WaitUntilReady (NewInstance ''worker'' 0 (Some (VM ''vm-123'')))
                  (sshTunnelOptions tunnelCfg noRegistry) stage1 None,
                DiskPoolLookup deployment1 ''worker'' (DiskPool ''10GB'') None,
                DiskDeploy (DiskPool ''10GB'') (Cloud ''cloud'') (Some (VM ''vm-123'')) stage1 None,
                StartJobs (NewInstance ''worker'' 0 (Some (VM ''vm-123''))) (ApplySpec extracted1)
                  deployment1 stage1 None]\<rparr>)"
    by (simp add: run_defs)
  from Create_empty_registry [OF h1 h2] show ?thesis
    using h1 h2 by simp
qed



text \<open>
  C9. When \<open>Create\<close> returns, the instance it returns is nil exactly when the
  registry start failed or the VM step failed, that is, when it failed before building
  the instance; an error is returned then. A non-nil instance means the VM step
  succeeded.
\<close>

theorem Create_nil_instance:
  assumes "Create m jobName n d es cs registry cfg stage (start w) = (Some (inst, err), s')"
  shows "(inst = None \<longleftrightarrow>
            (\<exists>e. ReadySignal (Some e) \<in> set (trace s')) \<or>
            (\<exists>e. StepFailed stage (stepName jobName n cs) e \<in> set (trace s')))
   \<and> (inst = None \<longrightarrow> err \<noteq> None)
   \<and> (inst \<noteq> None \<longrightarrow> StepFinished stage (stepName jobName n cs) \<in> set (trace s'))"
  using assms
proof (cases rule: Create_cases)
  case blocked
  then show ?thesis by simp
next
  case (start_failed e)
  then show ?thesis by auto
next
  case (with_registry r evs)
  from with_registry(4) show ?thesis
    by cases (use with_registry(2,5) in simp_all)
next
  case (no_registry r evs)
  from no_registry(3) show ?thesis
    by cases (use no_registry(2,4) in simp_all)
qed

theorem Create_nil_instance_witness:
  "Create promoteFails ''worker'' 0 deployment1 extracted1 stemcell1 registry6868 tunnelCfg
       stage1 (start 0) =
     (Some (None, Some (WrapError (Error ''stemcell not found'') (promoteContext stemcell1))),
      \<lparr>world = 4,
       trace = [RegistryStart ''admin'' ''secret'' ''10.0.0.5'' 6868, ReadySignal None,
                StepStarted stage1 (stepName ''worker'' 0 stemcell1),
                VMCreate stemcell1 deployment1 (Some (VM ''vm-123'')) None,
                PromoteAsCurrent stemcell1 (Some (Error ''stemcell not found'')),
                StepFailed stage1 (stepName ''worker'' 0 stemcell1)
                  (WrapError (Error ''stemcell not found'') (promoteContext stemcell1)),
                RegistryStop]\<rparr>)
   \<and> promoteContext stemcell1 = ''Promoting stemcell as current 'sc-1'' @ apostrophe"
proof -
  have h: "Create promoteFails ''worker'' 0 deployment1 extracted1 stemcell1 registry6868
       tunnelCfg stage1 (start 0) =
     (Some (None, Some (WrapError (Error ''stemcell not found'') (promoteContext stemcell1))),
      \<lparr>world = 4,
       trace = [RegistryStart ''admin'' ''secret'' ''10.0.0.5'' 6868, ReadySignal None,
                StepStarted stage1 (stepName ''worker'' 0 stemcell1),
                VMCreate stemcell1 deployment1 (Some (VM ''vm-123'')) None,
                PromoteAsCurrent stemcell1 (Some (Error ''stemcell not found'')),
                StepFailed stage1 (stepName ''worker'' 0 stemcell1)
                  (WrapError (Error ''stemcell not found'') (promoteContext stemcell1)),
                RegistryStop]\<rparr>)"
    by (simp add: promoteFails_def run_defs)
  have ctx: "promoteContext stemcell1 = ''Promoting stemcell as current 'sc-1'' @ apostrophe"
    by (simp add: promoteContext_def stemcell1_def apostrophe_def)
  from Create_nil_instance [OF h] show ?thesis
    using h ctx by simp
qed



text \<open>
  C5. \<open>DeleteAll\<close> calls \<open>FindCurrent\<close>; a lookup error is returned as
  \<open>FindCurrent\<close> wrapped it, and nothing is deleted. Otherwise the instances found are
  deleted one after the other, in order. The loop stops at the first \<open>Delete\<close> that
  fails: the instances before it were deleted, the ones after it are not attempted,
  and the error is returned wrapped with "Deleting existing instance
  '<jobName>/<id>'", built from the failing instance's \<open>JobName()\<close> and \<open>ID()\<close>.
  When no \<open>Delete\<close> fails, and so when no instance was found, no error is returned.
  The loop behaves so on every list of instances, not only on the one \<open>FindCurrent\<close>
  can return.
\<close>

theorem DeleteAll_fail_fast:
  assumes "FindCurrent m (start w) = ((found, ferr), s1)"
    and "DeleteAll m pingTimeout pingDelay stage (start w) = (res, s')"
  shows "(\<forall>e. ferr = Some e \<longrightarrow> res = Some e \<and> s' = s1)
   \<and> (ferr = None \<longrightarrow>
        (res = None \<and>
         trace s' = trace s1 @ map (\<lambda>i. InstanceDelete i pingTimeout pingDelay stage None) found)
        \<or> (\<exists>before i after e.
              found = before @ i # after \<and>
              res = Some (WrapError e
                (''Deleting existing instance '' @ apostrophe @ JobName i @ ''/'' @
                 show_int (ID i) @ apostrophe)) \<and>
              trace s' = trace s1 @
                map (\<lambda>i. InstanceDelete i pingTimeout pingDelay stage None) before @
                [InstanceDelete i pingTimeout pingDelay stage (Some e)]))
   \<and> (ferr = None \<and> found = [] \<longrightarrow> res = None \<and> s' = s1)
   \<and> (\<forall>instances s r t.
         deleteInstances m pingTimeout pingDelay stage instances s = (r, t) \<longrightarrow>
           (r = None \<and>
            trace t = trace s @
              map (\<lambda>i. InstanceDelete i pingTimeout pingDelay stage None) instances)
           \<or> (\<exists>before i after e.
                 instances = before @ i # after \<and>
                 r = Some (WrapError e
                   (''Deleting existing instance '' @ apostrophe @ JobName i @ ''/'' @
                    show_int (ID i) @ apostrophe)) \<and>
                 trace t = trace s @
                   map (\<lambda>i. InstanceDelete i pingTimeout pingDelay stage None) before @
                   [InstanceDelete i pingTimeout pingDelay stage (Some e)]))"
proof -
  have loop: "\<forall>instances s r t.
         deleteInstances m pingTimeout pingDelay stage instances s = (r, t) \<longrightarrow>
           (r = None \<and>
            trace t = trace s @
              map (\<lambda>i. InstanceDelete i pingTimeout pingDelay stage None) instances)
           \<or> (\<exists>before i after e.
                 instances = before @ i # after \<and>
                 r = Some (WrapError e
                   (''Deleting existing instance '' @ apostrophe @ JobName i @ ''/'' @
                    show_int (ID i) @ apostrophe)) \<and>
                 trace t = trace s @
                   map (\<lambda>i. InstanceDelete i pingTimeout pingDelay stage None) before @
                   [InstanceDelete i pingTimeout pingDelay stage (Some e)])"
    using deleteInstances_log [of m pingTimeout pingDelay stage]
    unfolding deleteContext_def by blast
  from assms have "ferr = None \<longrightarrow>
      deleteInstances m pingTimeout pingDelay stage found s1 = (res, s')"
    by (auto simp: DeleteAll_def)
  with loop have l: "ferr = None \<longrightarrow>
        (res = None \<and>
         trace s' = trace s1 @ map (\<lambda>i. InstanceDelete i pingTimeout pingDelay stage None) found)
        \<or> (\<exists>before i after e.
              found = before @ i # after \<and>
              res = Some (WrapError e
                (''Deleting existing instance '' @ apostrophe @ JobName i @ ''/'' @
                 show_int (ID i) @ apostrophe)) \<and>
              trace s' = trace s1 @
                map (\<lambda>i. InstanceDelete i pingTimeout pingDelay stage None) before @
                [InstanceDelete i pingTimeout pingDelay stage (Some e)])"
    by blast
  from assms have e: "\<forall>e. ferr = Some e \<longrightarrow> res = Some e \<and> s' = s1"
    by (auto simp: DeleteAll_def)
  from assms have z: "ferr = None \<and> found = [] \<longrightarrow> res = None \<and> s' = s1"
    by (auto simp: DeleteAll_def)
  from e l z loop show ?thesis by blast
qed

theorem DeleteAll_fail_fast_witness:
  "FindCurrent deleteFails (start 0) =
     (([NewInstance ''unknown'' 0 (Some (VM ''vm-123''))], None),
      \<lparr>world = 1, trace = [VMFindCurrent (Some (VM ''vm-123'')) True None]\<rparr>)
   \<and> DeleteAll deleteFails 10000000000 1000000000 stage1 (start 0) =
     (Some (WrapError (Error ''VM is locked'')
         (''Deleting existing instance 'unknown/0'' @ apostrophe)),
      \<lparr>world = 2,
       trace = [VMFindCurrent (Some (VM ''vm-123'')) True None,
                InstanceDelete (NewInstance ''unknown'' 0 (Some (VM ''vm-123'')))
                  10000000000 1000000000 stage1 (Some (Error ''VM is locked''))]\<rparr>)
   \<and> deleteInstances deleteFails 10000000000 1000000000 stage1
       [NewInstance ''web'' 1 None, NewInstance ''db'' 0 None, NewInstance ''cache'' 2 None]
       (start 0) =
     (Some (WrapError (Error ''VM is locked'')
         (''Deleting existing instance 'db/0'' @ apostrophe)),
      \<lparr>world = 2,
       trace = [InstanceDelete (NewInstance ''web'' 1 None) 10000000000 1000000000 stage1 None,
                InstanceDelete (NewInstance ''db'' 0 None) 10000000000 1000000000 stage1
                  (Some (Error ''VM is locked''))]\<rparr>)"
proof -
  have zero: "show_int 0 = ''0''"
    by (simp add: show_int_def show_nat.simps digit_char_def)
  have h1: "FindCurrent deleteFails (start 0) =
     (([NewInstance ''unknown'' 0 (Some (VM ''vm-123''))], None),
      \<lparr>world = 1, trace = [VMFindCurrent (Some (VM ''vm-123'')) True None]\<rparr>)"
    by (simp add: FindCurrent_def deleteFails_def run_defs)
  have h2: "DeleteAll deleteFails 10000000000 1000000000 stage1 (start 0) =
     (Some (WrapError (Error ''VM is locked'')
         (''Deleting existing instance 'unknown/0'' @ apostrophe)),
      \<lparr>world = 2,
       trace = [VMFindCurrent (Some (VM ''vm-123'')) True None,
                InstanceDelete (NewInstance ''unknown'' 0 (Some (VM ''vm-123'')))
                  10000000000 1000000000 stage1 (Some (Error ''VM is locked''))]\<rparr>)"
    by (simp add: DeleteAll_def FindCurrent_def deleteFails_def scenario_def call_def start_def
        deleteContext_def JobName_def ID_def NewInstance_def zero apostrophe_def)
  have h3: "deleteInstances deleteFails 10000000000 1000000000 stage1
       [NewInstance ''web'' 1 None, NewInstance ''db'' 0 None, NewInstance ''cache'' 2 None]
       (start 0) =
     (Some (WrapError (Error ''VM is locked'')
         (''Deleting existing instance 'db/0'' @ apostrophe)),
      \<lparr>world = 2,
       trace = [InstanceDelete (NewInstance ''web'' 1 None) 10000000000 1000000000 stage1 None,
                InstanceDelete (NewInstance ''db'' 0 None) 10000000000 1000000000 stage1
                  (Some (Error ''VM is locked''))]\<rparr>)"
    by (simp add: deleteFails_def scenario_def call_def start_def
        deleteContext_def JobName_def ID_def NewInstance_def zero apostrophe_def)
  from DeleteAll_fail_fast [OF h1 h2] show ?thesis
    using h1 h2 h3 by simp
qed

end
